theory Spec2Isabelle
  imports Complex_Main "HOL-Library.Sublist"
begin

section \<open>Decoded JSON values and the Python operations applied to them\<close>

text \<open>
  The client in \<^verbatim>\<open>streamlit_app.py\<close> only ever handles values produced by
  \<^verbatim>\<open>response.json()\<close>. \<open>JObj kvs\<close> is the decoded \<^verbatim>\<open>dict\<close> whose lookup is
  \<open>map_of kvs\<close>; \<open>JNum\<close> stands for both \<^verbatim>\<open>int\<close> and \<^verbatim>\<open>float\<close>, which the
  client never inspects.
\<close>

datatype json =
    JNull
  | JBool bool
  | JNum rat
  | JStr string
  | JArr "json list"
  | JObj "(string \<times> json) list"

text \<open>
  A \<^verbatim>\<open>requests.Response\<close>, reduced to what the client reads: the status code, the raw
  bytes (\<^verbatim>\<open>.content\<close>) and the outcome of \<^verbatim>\<open>.json()\<close>, where \<open>None\<close> means that the
  body is not JSON and the call raises.
\<close>

record response =
  status_code :: int
  content :: string
  json_body :: "json option"

text \<open>
  The exceptions that can reach one of the handlers. All are subclasses of
  \<^verbatim>\<open>Exception\<close>; \<open>HTTPError\<close> is \<^verbatim>\<open>requests.exceptions.HTTPError\<close> with its
  \<^verbatim>\<open>.response\<close> attribute, \<open>LibraryError\<close> any other exception raised inside
  \<^verbatim>\<open>requests\<close> or \<^verbatim>\<open>PIL\<close>.
\<close>

datatype exn =
    KeyError json
  | TypeError
  | IndexError
  | AttributeError
  | JSONDecodeError
  | HTTPError "response option"
  | LibraryError string

text \<open>\<^verbatim>\<open>key in v\<close> for a string key: dict keys, list membership, substring test.\<close>

fun py_contains :: "string \<Rightarrow> json \<Rightarrow> exn + bool" where
  "py_contains k (JObj kvs) = Inr (k \<in> set (map fst kvs))"
| "py_contains k (JArr xs) = Inr (JStr k \<in> set xs)"
| "py_contains k (JStr s) = Inr (sublist k s)"
| "py_contains k _ = Inl TypeError"

text \<open>\<^verbatim>\<open>v[key]\<close> for a string key: only a dict accepts it.\<close>

fun py_getitem :: "json \<Rightarrow> string \<Rightarrow> exn + json" where
  "py_getitem (JObj kvs) k =
     (case map_of kvs k of Some v \<Rightarrow> Inr v | None \<Rightarrow> Inl (KeyError (JStr k)))"
| "py_getitem _ k = Inl TypeError"

text \<open>\<^verbatim>\<open>v[0]\<close>: a decoded dict has string keys only, so the key \<open>0\<close> is never there.\<close>

fun py_getitem0 :: "json \<Rightarrow> exn + json" where
  "py_getitem0 (JArr xs) = (case xs of [] \<Rightarrow> Inl IndexError | x # _ \<Rightarrow> Inr x)"
| "py_getitem0 (JStr s) = (case s of [] \<Rightarrow> Inl IndexError | c # _ \<Rightarrow> Inr (JStr [c]))"
| "py_getitem0 (JObj kvs) = Inl (KeyError (JNum 0))"
| "py_getitem0 _ = Inl TypeError"

text \<open>\<^verbatim>\<open>v.get(key, default)\<close>: a method of dict only.\<close>

fun py_get :: "json \<Rightarrow> string \<Rightarrow> json \<Rightarrow> exn + json" where
  "py_get (JObj kvs) k d = Inr (case map_of kvs k of Some v \<Rightarrow> v | None \<Rightarrow> d)"
| "py_get _ k d = Inl AttributeError"

text \<open>
  \<^verbatim>\<open>str(v)\<close>, as an f-string applies it: a string is inserted as it is, anything else
  through its \<^verbatim>\<open>repr\<close>, which is a parameter of the model.
\<close>

definition py_str :: "(json \<Rightarrow> string) \<Rightarrow> json \<Rightarrow> string" where
  "py_str rp v = (case v of JStr s \<Rightarrow> s | _ \<Rightarrow> rp v)"

section \<open>The outside world\<close>

text \<open>
  Everything the client calls and does not define. \<open>requests_get\<close> takes first the
  number of \<^verbatim>\<open>requests.get\<close> calls made before this one, so that the status endpoint can
  answer differently on every attempt; then the URL, the headers and the query
  parameters. \<open>py_repr\<close> and \<open>exn_str\<close> are Python's \<^verbatim>\<open>repr\<close> of a decoded value and
  \<^verbatim>\<open>str\<close> of an exception. Every call into the world comes back, with a value or with
  an exception.
\<close>

record 'img world =
  requests_post :: "string \<Rightarrow> (string \<times> string) list \<Rightarrow> json \<Rightarrow> exn + response"
  requests_get :: "nat \<Rightarrow> json \<Rightarrow> (string \<times> string) list \<Rightarrow> (string \<times> json) list \<Rightarrow> exn + response"
  Image_open :: "string \<Rightarrow> exn + 'img"
  py_repr :: "json \<Rightarrow> string"
  exn_str :: "exn \<Rightarrow> string"

text \<open>
  \<^verbatim>\<open>Response.raise_for_status()\<close> of the \<^verbatim>\<open>requests\<close> library: it raises for the
  client-error and server-error ranges and for nothing else.
\<close>

definition raise_for_status :: "response \<Rightarrow> exn option" where
  "raise_for_status r =
     (if 400 \<le> status_code r \<and> status_code r < 600 then Some (HTTPError (Some r)) else None)"

text \<open>What an observer sees of a run, in order.\<close>

datatype 'img event =
    StWrite string
  | Post string "(string \<times> string) list" json
  | Sleep rat
  | Get json "(string \<times> string) list" "(string \<times> json) list"
  | StError string
  | StSuccess string
  | StImage 'img

type_synonym 'img outcome = "'img option \<times> string option"

section \<open>The parameter collector\<close>

text \<open>Lines 186--195: width and height from the aspect-ratio choice.\<close>

definition aspect_dims :: "string \<Rightarrow> int \<times> int" where
  "aspect_dims aspect_ratio =
     (if aspect_ratio = ''Square (1:1)'' then (1024, 1024)
      else if aspect_ratio = ''Portrait (3:4)'' then (768, 1024)
      else if aspect_ratio = ''Landscape (4:3)'' then (1024, 768)
      else if aspect_ratio = ''Wide (16:9)'' then (1024, 576)
      else (576, 1024))"

section \<open>The generation client\<close>

text \<open>Lines 75--78: the image URL of a \<^verbatim>\<open>Ready\<close> status payload.\<close>

definition extract_img_url :: "json \<Rightarrow> exn + json" where
  "extract_img_url result =
     (case py_getitem result ''result'' of
        Inl e \<Rightarrow> Inl e
      | Inr payload \<Rightarrow>
          (case py_contains ''sample'' payload of
             Inl e \<Rightarrow> Inl e
           | Inr True \<Rightarrow> py_getitem payload ''sample''
           | Inr False \<Rightarrow>
               (case py_getitem payload ''samples'' of
                  Inl e \<Rightarrow> Inl e
                | Inr samples \<Rightarrow> py_getitem0 samples)))"

text \<open>Lines 81--83: download and decode; \<open>n\<close> counts the earlier GET calls.\<close>

definition download_image :: "'img world \<Rightarrow> nat \<Rightarrow> json \<Rightarrow> exn + 'img" where
  "download_image w n img_url =
     (case requests_get w n img_url [] [] of
        Inl e \<Rightarrow> Inl e
      | Inr img_response \<Rightarrow>
          (case raise_for_status img_response of
             Some e \<Rightarrow> Inl e
           | None \<Rightarrow> Image_open w (content img_response)))"

text \<open>Line 85: the message of the handler inside the \<^verbatim>\<open>Ready\<close> branch.\<close>

definition processing_error :: "'img world \<Rightarrow> exn \<Rightarrow> json \<Rightarrow> string" where
  "processing_error w e result =
     ''Error processing API response: '' @ exn_str w e @ [CHR 0x0A] @ ''Response: ''
       @ py_str (py_repr w) result"

text \<open>Lines 73--85: the \<^verbatim>\<open>Ready\<close> branch with its own \<^verbatim>\<open>except Exception\<close>.\<close>

definition ready_branch :: "'img world \<Rightarrow> nat \<Rightarrow> json \<Rightarrow> 'img outcome \<times> 'img event list" where
  "ready_branch w n result =
     (case extract_img_url result of
        Inl e \<Rightarrow> ((None, Some (processing_error w e result)), [])
      | Inr img_url \<Rightarrow>
          (case download_image w n img_url of
             Inl e \<Rightarrow> ((None, Some (processing_error w e result)), [Get img_url [] []])
           | Inr img \<Rightarrow> ((Some img, None), [Get img_url [] []])))"

text \<open>Lines 66--70: one status request, decoded.\<close>

definition poll_json ::
  "'img world \<Rightarrow> string \<Rightarrow> (string \<times> string) list \<Rightarrow> json \<Rightarrow> nat \<Rightarrow> exn + json" where
  "poll_json w base_url headers request_id i =
     (case requests_get w i (JStr (base_url @ ''/get_result'')) headers [(''id'', request_id)] of
        Inl e \<Rightarrow> Inl e
      | Inr r \<Rightarrow> (case json_body r of None \<Rightarrow> Inl JSONDecodeError | Some v \<Rightarrow> Inr v))"

text \<open>
  Lines 64--91: the loop over \<^verbatim>\<open>range(max_attempts)\<close>, with \<open>i\<close> the attempts already
  made and the last argument the attempts left; when none is left the statement after
  the loop returns the timeout. An exception that escapes (\<open>Inl\<close>) goes to the handlers
  of lines 93--100.
\<close>

fun poll_loop ::
  "'img world \<Rightarrow> string \<Rightarrow> (string \<times> string) list \<Rightarrow> json \<Rightarrow> nat \<Rightarrow> nat
     \<Rightarrow> (exn + 'img outcome) \<times> 'img event list" where
  "poll_loop w base_url headers request_id i 0 =
     (Inr (None, Some ''Image generation timed out''), [])"
| "poll_loop w base_url headers request_id i (Suc n) =
     (let evs = [Sleep (1 / 2),
                 Get (JStr (base_url @ ''/get_result'')) headers [(''id'', request_id)]]
      in case poll_json w base_url headers request_id i of
           Inl e \<Rightarrow> (Inl e, evs)
         | Inr result \<Rightarrow>
             (case py_getitem result ''status'' of
                Inl e \<Rightarrow> (Inl e, evs)
              | Inr status \<Rightarrow>
                  if status = JStr ''Ready'' then
                    (let (out, evs') = ready_branch w (Suc i) result in (Inr out, evs @ evs'))
                  else if status = JStr ''Failed'' then
                    (case py_get result ''error'' (JStr ''Unknown error'') of
                       Inl e \<Rightarrow> (Inl e, evs)
                     | Inr err \<Rightarrow>
                         (Inr (None, Some (''Generation failed: '' @ py_str (py_repr w) err)),
                          evs))
                  else
                    (let (r, evs') = poll_loop w base_url headers request_id (Suc i) n
                     in (r, evs @ [StWrite (''Status: '' @ py_str (py_repr w) status)] @ evs'))))"

text \<open>Lines 47--91: the body of the outer \<^verbatim>\<open>try\<close>.\<close>

definition submit_and_poll ::
  "'img world \<Rightarrow> string \<Rightarrow> (string \<times> string) list \<Rightarrow> json
     \<Rightarrow> (exn + 'img outcome) \<times> 'img event list" where
  "submit_and_poll w base_url headers payload =
     (let evs = [StWrite ''Submitting image generation request...'',
                 Post (base_url @ ''/flux-pro-1.1'') headers payload]
      in case requests_post w (base_url @ ''/flux-pro-1.1'') headers payload of
           Inl e \<Rightarrow> (Inl e, evs)
         | Inr response \<Rightarrow>
             (case raise_for_status response of
                Some e \<Rightarrow> (Inl e, evs)
              | None \<Rightarrow>
                  (case json_body response of
                     None \<Rightarrow> (Inl JSONDecodeError, evs)
                   | Some request_data \<Rightarrow>
                       (case py_contains ''id'' request_data of
                          Inl e \<Rightarrow> (Inl e, evs)
                        | Inr False \<Rightarrow> (Inr (None, Some ''No request ID in response''), evs)
                        | Inr True \<Rightarrow>
                            (case py_getitem request_data ''id'' of
                               Inl e \<Rightarrow> (Inl e, evs)
                             | Inr request_id \<Rightarrow>
                                 (let (r, evs') = poll_loop w base_url headers request_id 0 60
                                  in (r, evs @ [StWrite ''Waiting for image generation...'']
                                           @ evs')))))))"

text \<open>
  Lines 93--100: the two outer handlers. \<^verbatim>\<open>e.response.json()\<close> fails when there is no
  response or its body is not JSON, and the bare \<^verbatim>\<open>except\<close> then uses \<^verbatim>\<open>str(e)\<close>.
\<close>

definition handle_exn :: "'img world \<Rightarrow> exn \<Rightarrow> string" where
  "handle_exn w e =
     (case e of
        HTTPError ro \<Rightarrow>
          (case ro of
             None \<Rightarrow> ''API Error: '' @ exn_str w e
           | Some r \<Rightarrow>
               (case json_body r of
                  Some error_detail \<Rightarrow> ''API Error: '' @ py_str (py_repr w) error_detail
                | None \<Rightarrow> ''API Error: '' @ exn_str w e))
      | _ \<Rightarrow> ''Unexpected error: '' @ exn_str w e)"

definition flux_headers :: "string \<Rightarrow> (string \<times> string) list" where
  "flux_headers api_key =
     [(''x-key'', api_key), (''accept'', ''application/json''),
      (''Content-Type'', ''application/json'')]"

definition flux_payload ::
  "string \<Rightarrow> string \<Rightarrow> int \<Rightarrow> int \<Rightarrow> rat \<Rightarrow> int option \<Rightarrow> string \<Rightarrow> int \<Rightarrow> json" where
  "flux_payload prompt negative_prompt width height guidance_scale seed sampler steps =
     JObj [(''prompt'', JStr prompt),
           (''negative_prompt'', JStr negative_prompt),
           (''width'', JNum (of_int width)),
           (''height'', JNum (of_int height)),
           (''guidance_scale'', JNum guidance_scale),
           (''seed'', (case seed of None \<Rightarrow> JNull | Some s \<Rightarrow> JNum (of_int s))),
           (''sampler'', JStr sampler),
           (''steps'', JNum (of_int steps))]"

definition base_url :: string where
  "base_url = ''https://api.us1.bfl.ai/v1''"

text \<open>Lines 8--100. The result is the returned tuple and what was done on the way.\<close>

definition call_flux_api ::
  "'img world \<Rightarrow> string \<Rightarrow> string \<Rightarrow> string \<Rightarrow> int \<Rightarrow> int \<Rightarrow> rat \<Rightarrow> int option \<Rightarrow> string \<Rightarrow> int
     \<Rightarrow> 'img outcome \<times> 'img event list" where
  "call_flux_api w api_key prompt negative_prompt width height guidance_scale seed sampler steps =
     (let headers = flux_headers api_key;
          payload = flux_payload prompt negative_prompt width height guidance_scale seed
                      sampler steps
      in case submit_and_poll w base_url headers payload of
           (Inr out, evs) \<Rightarrow> (out, evs)
         | (Inl e, evs) \<Rightarrow> ((None, Some (handle_exn w e)), evs))"

section \<open>The generate action\<close>

record ui_inputs =
  ui_api_key :: string
  ui_prompt :: string
  ui_negative_prompt :: string
  ui_aspect_ratio :: string
  ui_guidance_scale :: rat
  ui_seed :: int
  ui_sampler :: string
  ui_steps :: int

text \<open>
  Lines 200--220, the body under \<^verbatim>\<open>if st.button("Generate Image")\<close>. An empty string is
  falsy, so \<^verbatim>\<open>not prompt\<close> holds for the empty prompt only; an image object is truthy.
\<close>

definition generate_clicked :: "'img world \<Rightarrow> ui_inputs \<Rightarrow> 'img event list" where
  "generate_clicked w u =
     (if ui_prompt u = [] then [StError ''Please enter a prompt first!'']
      else
        (let (width, height) = aspect_dims (ui_aspect_ratio u);
             ((image, error), evs) =
                call_flux_api w (ui_api_key u) (ui_prompt u) (ui_negative_prompt u) width height
                  (ui_guidance_scale u) (Some (ui_seed u)) (ui_sampler u) (ui_steps u)
         in evs @
            (case error of
               Some msg \<Rightarrow> if msg \<noteq> [] then [StError (''Error: '' @ msg)] else []
             | None \<Rightarrow>
                 (case image of
                    Some img \<Rightarrow>
                      [StSuccess ([CHR 0xE2, CHR 0x9C, CHR 0xA8] @ '' Generation Complete!''),
                       StImage img]
                  | None \<Rightarrow> []))))"

section \<open>Reading a trace\<close>

text \<open>The requests to the status endpoint, the calls that go out, and the time slept.\<close>

fun is_poll :: "'img event \<Rightarrow> bool" where
  "is_poll (Get u hs ps) = (u = JStr (base_url @ ''/get_result'') \<and> map fst ps = [''id''])"
| "is_poll _ = False"

fun is_network :: "'img event \<Rightarrow> bool" where
  "is_network (Post u hs p) = True"
| "is_network (Get u hs ps) = True"
| "is_network _ = False"

definition poll_calls :: "'img event list \<Rightarrow> nat" where
  "poll_calls evs = length (filter is_poll evs)"

definition network_calls :: "'img event list \<Rightarrow> 'img event list" where
  "network_calls evs = filter is_network evs"

fun slept :: "'img event \<Rightarrow> rat" where
  "slept (Sleep d) = d"
| "slept _ = 0"

definition elapsed_wait :: "'img event list \<Rightarrow> rat" where
  "elapsed_wait evs = sum_list (map slept evs)"

section \<open>Vocabulary of the properties\<close>

text \<open>
  The submission was accepted and named the job: no exception, a status outside the
  error ranges, and a decoded object whose \<open>id\<close> is \<open>request_id\<close>.
\<close>

definition submitted ::
  "'img world \<Rightarrow> (string \<times> string) list \<Rightarrow> json \<Rightarrow> json \<Rightarrow> bool" where
  "submitted w headers payload request_id =
     (case requests_post w (base_url @ ''/flux-pro-1.1'') headers payload of
        Inl e \<Rightarrow> False
      | Inr r \<Rightarrow>
          raise_for_status r = None \<and>
          (case json_body r of
             Some (JObj fs) \<Rightarrow> map_of fs ''id'' = Some request_id
           | _ \<Rightarrow> False))"

text \<open>
  The status that the decoded response number \<open>i\<close> of the status endpoint carries, if it
  is an object with a \<open>status\<close> key; and the test of lines 72 and 86 that lets the loop
  go on.
\<close>

definition poll_status ::
  "'img world \<Rightarrow> (string \<times> string) list \<Rightarrow> json \<Rightarrow> nat \<Rightarrow> json option" where
  "poll_status w headers request_id i =
     (case poll_json w base_url headers request_id i of
        Inr (JObj fs) \<Rightarrow> map_of fs ''status''
      | _ \<Rightarrow> None)"

definition pending :: "'img world \<Rightarrow> (string \<times> string) list \<Rightarrow> json \<Rightarrow> nat \<Rightarrow> bool" where
  "pending w headers request_id i =
     (case poll_status w headers request_id i of
        Some st \<Rightarrow> st \<noteq> JStr ''Ready'' \<and> st \<noteq> JStr ''Failed''
      | None \<Rightarrow> False)"

text \<open>What one iteration that ends at line 89 does, and \<open>m\<close> of them from attempt \<open>i\<close> on.\<close>

definition pending_round ::
  "'img world \<Rightarrow> (string \<times> string) list \<Rightarrow> json \<Rightarrow> nat \<Rightarrow> 'img event list" where
  "pending_round w headers request_id j =
     [Sleep (1 / 2),
      Get (JStr (base_url @ ''/get_result'')) headers [(''id'', request_id)]]
     @ (case poll_status w headers request_id j of
          Some st \<Rightarrow> [StWrite (''Status: '' @ py_str (py_repr w) st)]
        | None \<Rightarrow> [])"

fun pending_rounds ::
  "'img world \<Rightarrow> (string \<times> string) list \<Rightarrow> json \<Rightarrow> nat \<Rightarrow> nat \<Rightarrow> 'img event list" where
  "pending_rounds w headers request_id i 0 = []"
| "pending_rounds w headers request_id i (Suc m) =
     pending_round w headers request_id i @ pending_rounds w headers request_id (Suc i) m"

text \<open>What a run does before its first attempt, and the status request as an event.\<close>

definition prelude :: "(string \<times> string) list \<Rightarrow> json \<Rightarrow> 'img event list" where
  "prelude headers payload =
     [StWrite ''Submitting image generation request...'',
      Post (base_url @ ''/flux-pro-1.1'') headers payload,
      StWrite ''Waiting for image generation...'']"

definition poll_get :: "(string \<times> string) list \<Rightarrow> json \<Rightarrow> 'img event" where
  "poll_get headers request_id =
     Get (JStr (base_url @ ''/get_result'')) headers [(''id'', request_id)]"

text \<open>What the \<^verbatim>\<open>try\<close> body may leave: an exception, an image alone or a message alone.\<close>

fun settled :: "exn + 'img outcome \<Rightarrow> bool" where
  "settled (Inl e) = True"
| "settled (Inr (Some img, None)) = True"
| "settled (Inr (None, Some msg)) = True"
| "settled (Inr _) = False"

section \<open>Sample worlds\<close>

text \<open>
  Concrete worlds on which the client can be run: the images are strings, the decoder
  accepts the bytes \<^verbatim>\<open>PNG\<close> only, and the world answers a GET from the number of
  earlier GET calls and the URL.
\<close>

definition json_response :: "int \<Rightarrow> json \<Rightarrow> response" where
  "json_response code v = \<lparr>status_code = code, content = [], json_body = Some v\<rparr>"

definition bytes_response :: "int \<Rightarrow> string \<Rightarrow> response" where
  "bytes_response code bytes = \<lparr>status_code = code, content = bytes, json_body = None\<rparr>"

definition demo_world ::
  "(exn + response) \<Rightarrow> (nat \<Rightarrow> json \<Rightarrow> exn + response) \<Rightarrow> string world" where
  "demo_world posted gets =
     \<lparr>requests_post = (\<lambda>url hs p. posted),
      requests_get = (\<lambda>n url hs ps. gets n url),
      Image_open = (\<lambda>bytes. if bytes = ''PNG'' then Inr ''image''
                             else Inl (LibraryError ''cannot identify image file'')),
      py_repr = (\<lambda>v. ''<repr>''),
      exn_str = (\<lambda>e. case e of LibraryError m \<Rightarrow> m | _ \<Rightarrow> ''<exception>'')\<rparr>"

definition accepted :: "exn + response" where
  "accepted = Inr (json_response 200 (JObj [(''id'', JStr ''job-1'')]))"

definition status_reply :: "(string \<times> json) list \<Rightarrow> exn + response" where
  "status_reply fs = Inr (json_response 200 (JObj fs))"

definition ready_fields :: "(string \<times> json) list" where
  "ready_fields =
     [(''status'', JStr ''Ready''),
      (''result'', JObj [(''sample'', JStr ''https://img/1.png''),
                         (''samples'', JArr [JStr ''https://img/2.png''])])]"

definition always_pending_world :: "string world" where
  "always_pending_world = demo_world accepted (\<lambda>n url. status_reply [(''status'', JStr ''Pending'')])"

definition ready_second_world :: "string world" where
  "ready_second_world =
     demo_world accepted
       (\<lambda>n url. if n = 0 then status_reply [(''status'', JStr ''Pending'')]
                 else if n = 1 then status_reply ready_fields
                 else if url = JStr ''https://img/1.png'' then Inr (bytes_response 200 ''PNG'')
                 else Inr (bytes_response 404 []))"

definition ready_first_world :: "int \<Rightarrow> int \<Rightarrow> string world" where
  "ready_first_world post_code img_code =
     demo_world (Inr (json_response post_code (JObj [(''id'', JStr ''job-1'')])))
       (\<lambda>n url. if n = 0 then status_reply ready_fields
                 else if url = JStr ''https://img/1.png'' then Inr (bytes_response img_code ''PNG'')
                 else Inr (bytes_response 404 []))"

definition no_id_world :: "string world" where
  "no_id_world =
     demo_world (Inr (json_response 200 (JObj [(''message'', JStr ''queued'')])))
       (\<lambda>n url. status_reply ready_fields)"

definition ready_empty_world :: "string world" where
  "ready_empty_world =
     demo_world accepted (\<lambda>n url. status_reply [(''status'', JStr ''Ready''), (''result'', JObj [])])"

definition failed_world :: "(string \<times> json) list \<Rightarrow> string world" where
  "failed_world fs =
     demo_world accepted
       (\<lambda>n url. if n = 0 then status_reply [(''status'', JStr ''Pending'')] else status_reply fs)"

definition rejected_world :: "response \<Rightarrow> string world" where
  "rejected_world r = demo_world (Inr r) (\<lambda>n url. status_reply ready_fields)"

definition empty_form :: ui_inputs where
  "empty_form =
     \<lparr>ui_api_key = ''key'', ui_prompt = [],
      ui_negative_prompt = ''low quality, blurry, text, watermark'',
      ui_aspect_ratio = ''Square (1:1)'', ui_guidance_scale = 3, ui_seed = 42,
      ui_sampler = ''euler_a'', ui_steps = 28\<rparr>"

section \<open>The shape of a run\<close>

lemmas demo_defs =
  json_response_def bytes_response_def demo_world_def accepted_def status_reply_def
  ready_fields_def submitted_def pending_def poll_status_def poll_json_def
  raise_for_status_def

lemma map_of_in_keys: "map_of kvs k = Some v \<Longrightarrow> k \<in> fst ` set kvs"
  by (metis map_of_eq_None_iff option.distinct(1))

lemma poll_loop_pending_step:
  assumes "pending w hs rid i"
  shows "poll_loop w base_url hs rid i (Suc n) =
           (fst (poll_loop w base_url hs rid (Suc i) n),
            pending_round w hs rid i @ snd (poll_loop w base_url hs rid (Suc i) n))"
  using assms
  by (auto simp: pending_def poll_status_def pending_round_def Let_def
           split: sum.splits json.splits option.splits prod.splits)

lemma poll_loop_pending:
  assumes "\<forall>j<m. pending w hs rid (i + j)"
  shows "poll_loop w base_url hs rid i (m + n) =
           (fst (poll_loop w base_url hs rid (i + m) n),
            pending_rounds w hs rid i m @ snd (poll_loop w base_url hs rid (i + m) n))"
  using assms
proof (induction m arbitrary: i)
  case 0
  then show ?case by simp
next
  case (Suc m)
  have p: "pending w hs rid i" using Suc.prems by force
  have rest: "\<forall>j<m. pending w hs rid (Suc i + j)"
  proof (intro allI impI)
    fix j assume "j < m"
    then have "pending w hs rid (i + Suc j)" using Suc.prems by blast
    then show "pending w hs rid (Suc i + j)" by simp
  qed
  have step: "poll_loop w base_url hs rid i (Suc (m + n)) =
                (fst (poll_loop w base_url hs rid (Suc i) (m + n)),
                 pending_round w hs rid i @ snd (poll_loop w base_url hs rid (Suc i) (m + n)))"
    by (rule poll_loop_pending_step[OF p])
  have ih: "poll_loop w base_url hs rid (Suc i) (m + n) =
              (fst (poll_loop w base_url hs rid (Suc i + m) n),
               pending_rounds w hs rid (Suc i) m @ snd (poll_loop w base_url hs rid (Suc i + m) n))"
    by (rule Suc.IH[OF rest])
  have "poll_loop w base_url hs rid i (Suc m + n) = poll_loop w base_url hs rid i (Suc (m + n))"
    by simp
  also have "\<dots> = (fst (poll_loop w base_url hs rid (Suc i + m) n),
                    pending_round w hs rid i @ pending_rounds w hs rid (Suc i) m
                      @ snd (poll_loop w base_url hs rid (Suc i + m) n))"
    unfolding step unfolding ih by simp
  finally show ?case by simp
qed

lemma submitted_run:
  assumes "submitted w hs payload rid"
  shows "submit_and_poll w base_url hs payload =
           (fst (poll_loop w base_url hs rid 0 60),
            prelude hs payload @ snd (poll_loop w base_url hs rid 0 60))"
  using assms
  by (auto simp: submitted_def submit_and_poll_def prelude_def Let_def
           dest: map_of_in_keys
           split: sum.splits option.splits json.splits prod.splits bool.splits)

lemma run_after_pending:
  assumes sub: "submitted w hs payload rid"
      and pend: "\<forall>j<m. pending w hs rid j"
      and left: "m + n = 60"
  shows "submit_and_poll w base_url hs payload =
           (fst (poll_loop w base_url hs rid m n),
            prelude hs payload @ pending_rounds w hs rid 0 m @ snd (poll_loop w base_url hs rid m n))"
proof -
  have "\<forall>j<m. pending w hs rid (0 + j)" using pend by simp
  from poll_loop_pending[OF this, of n]
  have "poll_loop w base_url hs rid 0 60 =
          (fst (poll_loop w base_url hs rid m n),
           pending_rounds w hs rid 0 m @ snd (poll_loop w base_url hs rid m n))"
    using left by simp
  then show ?thesis using submitted_run[OF sub] by simp
qed

lemma poll_loop_ready:
  assumes "poll_json w base_url hs rid i = Inr (JObj fs)"
      and "map_of fs ''status'' = Some (JStr ''Ready'')"
  shows "poll_loop w base_url hs rid i (Suc n) =
           (Inr (fst (ready_branch w (Suc i) (JObj fs))),
            [Sleep (1 / 2), poll_get hs rid] @ snd (ready_branch w (Suc i) (JObj fs)))"
  using assms by (simp add: poll_get_def split: prod.splits)

lemma poll_loop_failed:
  assumes "poll_json w base_url hs rid i = Inr (JObj fs)"
      and "map_of fs ''status'' = Some (JStr ''Failed'')"
  shows "poll_loop w base_url hs rid i (Suc n) =
           (Inr (None, Some (''Generation failed: '' @
                   (case map_of fs ''error'' of
                      Some v \<Rightarrow> py_str (py_repr w) v
                    | None \<Rightarrow> ''Unknown error''))),
            [Sleep (1 / 2), poll_get hs rid])"
  using assms by (simp add: poll_get_def py_str_def split: option.splits)

lemma call_flux_api_run:
  "call_flux_api w api_key prompt negative_prompt width height guidance_scale seed sampler steps =
     ((case fst (submit_and_poll w base_url (flux_headers api_key)
                  (flux_payload prompt negative_prompt width height guidance_scale seed sampler steps)) of
         Inr out \<Rightarrow> out
       | Inl e \<Rightarrow> (None, Some (handle_exn w e))),
      snd (submit_and_poll w base_url (flux_headers api_key)
             (flux_payload prompt negative_prompt width height guidance_scale seed sampler steps)))"
  by (simp add: call_flux_api_def Let_def split: prod.splits sum.splits)

lemma poll_calls_append: "poll_calls (xs @ ys) = poll_calls xs + poll_calls ys"
  by (simp add: poll_calls_def)

lemma elapsed_wait_append: "elapsed_wait (xs @ ys) = elapsed_wait xs + elapsed_wait ys"
  by (simp add: elapsed_wait_def)

lemma network_calls_append: "network_calls (xs @ ys) = network_calls xs @ network_calls ys"
  by (simp add: network_calls_def)

lemma poll_calls_prelude: "poll_calls (prelude hs payload) = 0"
  by (simp add: poll_calls_def prelude_def)

lemma elapsed_wait_prelude: "elapsed_wait (prelude hs payload) = 0"
  by (simp add: elapsed_wait_def prelude_def)

lemma network_calls_prelude:
  "network_calls (prelude hs payload) = [Post (base_url @ ''/flux-pro-1.1'') hs payload]"
  by (simp add: network_calls_def prelude_def)

lemma poll_calls_pending_rounds: "poll_calls (pending_rounds w hs rid i m) = m"
  by (induction m arbitrary: i)
     (simp_all add: poll_calls_def pending_round_def split: option.splits)

lemma elapsed_wait_pending_rounds: "elapsed_wait (pending_rounds w hs rid i m) = of_nat m * (1 / 2)"
  by (induction m arbitrary: i)
     (simp_all add: elapsed_wait_def pending_round_def algebra_simps split: option.splits)

lemma network_calls_pending_rounds:
  "network_calls (pending_rounds w hs rid i m) = replicate m (poll_get hs rid)"
  by (induction m arbitrary: i)
     (simp_all add: network_calls_def pending_round_def poll_get_def split: option.splits)

lemma extract_sample:
  assumes "map_of fs ''result'' = Some (JObj rs)" and "map_of rs ''sample'' = Some u"
  shows "extract_img_url (JObj fs) = Inr u"
  using assms map_of_in_keys[OF assms(2)] by (simp add: extract_img_url_def)

lemma extract_neither:
  assumes "map_of fs ''result'' = Some (JObj rs)"
      and "map_of rs ''sample'' = None" and "map_of rs ''samples'' = None"
  shows "extract_img_url (JObj fs) = Inl (KeyError (JStr ''samples''))"
proof -
  have "''sample'' \<notin> fst ` set rs" using assms(2) by (simp add: map_of_eq_None_iff)
  then show ?thesis using assms(1,3) by (simp add: extract_img_url_def)
qed

lemma run_ready:
  assumes sub: "submitted w hs payload rid"
      and k: "0 < k" "k \<le> 60"
      and pend: "\<forall>i<k - 1. pending w hs rid i"
      and resp: "poll_json w base_url hs rid (k - 1) = Inr (JObj fs)"
      and st: "map_of fs ''status'' = Some (JStr ''Ready'')"
  shows "submit_and_poll w base_url hs payload =
           (Inr (fst (ready_branch w k (JObj fs))),
            prelude hs payload @ pending_rounds w hs rid 0 (k - 1)
              @ [Sleep (1 / 2), poll_get hs rid] @ snd (ready_branch w k (JObj fs)))"
proof -
  obtain m where m: "k = Suc m" using k(1) by (cases k) auto
  have left: "m + Suc (59 - m) = 60" using k(2) m by simp
  have pend': "\<forall>i<m. pending w hs rid i" using pend m by simp
  have resp': "poll_json w base_url hs rid m = Inr (JObj fs)" using resp m by simp
  show ?thesis
    unfolding run_after_pending[OF sub pend' left] poll_loop_ready[OF resp' st]
    by (simp add: m)
qed

lemma run_failed:
  assumes sub: "submitted w hs payload rid"
      and k: "0 < k" "k \<le> 60"
      and pend: "\<forall>i<k - 1. pending w hs rid i"
      and resp: "poll_json w base_url hs rid (k - 1) = Inr (JObj fs)"
      and st: "map_of fs ''status'' = Some (JStr ''Failed'')"
  shows "submit_and_poll w base_url hs payload =
           (Inr (None, Some (''Generation failed: '' @
                   (case map_of fs ''error'' of
                      Some v \<Rightarrow> py_str (py_repr w) v
                    | None \<Rightarrow> ''Unknown error''))),
            prelude hs payload @ pending_rounds w hs rid 0 (k - 1)
              @ [Sleep (1 / 2), poll_get hs rid])"
proof -
  obtain m where m: "k = Suc m" using k(1) by (cases k) auto
  have left: "m + Suc (59 - m) = 60" using k(2) m by simp
  have pend': "\<forall>i<m. pending w hs rid i" using pend m by simp
  have resp': "poll_json w base_url hs rid m = Inr (JObj fs)" using resp m by simp
  show ?thesis
    unfolding run_after_pending[OF sub pend' left] poll_loop_failed[OF resp' st]
    by (simp add: m)
qed

lemma poll_calls_Cons:
  "poll_calls (e # es) = (if is_poll e then Suc (poll_calls es) else poll_calls es)"
  by (simp add: poll_calls_def)

lemma network_calls_Cons:
  "network_calls (e # es) = (if is_network e then e # network_calls es else network_calls es)"
  by (simp add: network_calls_def)

lemma elapsed_wait_Cons: "elapsed_wait (e # es) = slept e + elapsed_wait es"
  by (simp add: elapsed_wait_def)

lemma trace_Nil: "poll_calls [] = 0" "network_calls [] = []" "elapsed_wait [] = 0"
  by (simp_all add: poll_calls_def network_calls_def elapsed_wait_def)

lemma poll_get_simps:
  "is_poll (poll_get hs rid :: 'img event)" "is_network (poll_get hs rid :: 'img event)"
  "slept (poll_get hs rid :: 'img event) = 0"
  by (simp_all add: poll_get_def)

lemmas trace_simps =
  poll_calls_append network_calls_append elapsed_wait_append
  poll_calls_Cons network_calls_Cons elapsed_wait_Cons trace_Nil poll_get_simps
  poll_calls_prelude network_calls_prelude elapsed_wait_prelude
  poll_calls_pending_rounds network_calls_pending_rounds elapsed_wait_pending_rounds

lemma ready_branch_settled: "ready_branch w n result = (out, evs) \<Longrightarrow> settled (Inr out)"
  by (auto simp: ready_branch_def split: sum.splits)

lemma poll_loop_settled: "poll_loop w b hs rid i n = (r, evs) \<Longrightarrow> settled r"
proof (induction n arbitrary: i r evs)
  case 0
  then show ?case by auto
next
  case (Suc n)
  from Suc.prems show ?case
    by (auto simp: Let_def split: sum.splits prod.splits if_splits
             dest: Suc.IH ready_branch_settled)
qed

lemma submit_and_poll_settled: "settled (fst (submit_and_poll w b hs payload))"
  by (auto simp: submit_and_poll_def Let_def
           split: sum.splits option.splits bool.splits prod.splits
           dest: poll_loop_settled)

lemma settled_cases:
  assumes "settled r"
  shows "(\<exists>img. (case r of Inr out \<Rightarrow> out | Inl e \<Rightarrow> (None, Some (h e))) = (Some img, None))
       \<or> (\<exists>msg. (case r of Inr out \<Rightarrow> out | Inl e \<Rightarrow> (None, Some (h e))) = (None, Some msg))"
  using assms by (cases r rule: settled.cases) auto

section \<open>Properties\<close>

text \<open>
  C1, as the code has it: when the job was accepted, the first \<open>k - 1\<close> status responses
  are pending and the \<open>k\<close>-th (\<open>k \<le> 60\<close>) is \<open>Ready\<close> with a \<open>sample\<close> URL in its result
  payload, and that URL answers with a decodable image, then the client returns the image
  with no error message; its network calls are the submission, \<open>k\<close> status requests and
  one GET of exactly the \<open>sample\<close> URL, whatever \<open>samples\<close> holds; and it has slept
  \<open>k \<times> 0.5\<close> time units, all of them before the \<open>Ready\<close> response, since it sleeps before
  every status request, the first included. The image GET is the call number \<open>k\<close> of
  \<open>requests_get\<close>, counting from 0.
\<close>

theorem ready_sample_is_fetched:
  assumes sub: "submitted w (flux_headers api_key)
             (flux_payload prompt negative_prompt width height guidance_scale seed sampler steps)
             request_id"
      and k: "0 < k" "k \<le> 60"
      and pend: "\<forall>i<k - 1. pending w (flux_headers api_key) request_id i"
      and resp: "poll_json w base_url (flux_headers api_key) request_id (k - 1) = Inr (JObj fs)"
      and st: "map_of fs ''status'' = Some (JStr ''Ready'')"
      and res: "map_of fs ''result'' = Some (JObj rs)"
      and sample: "map_of rs ''sample'' = Some (JStr url)"
      and fetch: "requests_get w k (JStr url) [] [] = Inr img_response"
      and ok: "raise_for_status img_response = None"
      and dec: "Image_open w (content img_response) = Inr img"
  shows "fst (call_flux_api w api_key prompt negative_prompt width height guidance_scale seed
                sampler steps) = (Some img, None)
         \<and> snd (call_flux_api w api_key prompt negative_prompt width height guidance_scale seed
                  sampler steps)
             = prelude (flux_headers api_key)
                 (flux_payload prompt negative_prompt width height guidance_scale seed sampler steps)
               @ pending_rounds w (flux_headers api_key) request_id 0 (k - 1)
               @ [Sleep (1 / 2), poll_get (flux_headers api_key) request_id, Get (JStr url) [] []]
         \<and> network_calls (snd (call_flux_api w api_key prompt negative_prompt width height
                                 guidance_scale seed sampler steps))
             = Post (base_url @ ''/flux-pro-1.1'') (flux_headers api_key)
                 (flux_payload prompt negative_prompt width height guidance_scale seed sampler steps)
               # replicate k (poll_get (flux_headers api_key) request_id)
               @ [Get (JStr url) [] []]
         \<and> elapsed_wait (snd (call_flux_api w api_key prompt negative_prompt width height
                                 guidance_scale seed sampler steps))
             = of_nat k * (1 / 2)"
proof -
  have rb: "ready_branch w k (JObj fs) = ((Some img, None), [Get (JStr url) [] []])"
    by (simp add: ready_branch_def extract_sample[OF res sample] download_image_def fetch ok dec)
  obtain m where m: "k = Suc m" using k(1) by (cases k) auto
  show ?thesis
    unfolding call_flux_api_run run_ready[OF sub k pend resp st] rb
    by (simp add: trace_simps m replicate_append_same algebra_simps)
qed

text \<open>
  A run of this kind: the second status response is \<open>Ready\<close>, the payload has
  both \<open>sample\<close> and \<open>samples\<close>, and only the \<open>sample\<close> URL is fetched, after two sleeps.
\<close>

theorem ready_sample_is_fetched_witness:
  "fst (call_flux_api ready_second_world ''key'' ''a clock'' [] 1024 1024 3 None ''euler_a'' 28)
     = (Some ''image'', None)
   \<and> snd (call_flux_api ready_second_world ''key'' ''a clock'' [] 1024 1024 3 None ''euler_a'' 28)
       = [StWrite ''Submitting image generation request...'',
          Post ''https://api.us1.bfl.ai/v1/flux-pro-1.1'' (flux_headers ''key'')
            (flux_payload ''a clock'' [] 1024 1024 3 None ''euler_a'' 28),
          StWrite ''Waiting for image generation...'',
          Sleep (1 / 2),
          Get (JStr ''https://api.us1.bfl.ai/v1/get_result'') (flux_headers ''key'')
            [(''id'', JStr ''job-1'')],
          StWrite ''Status: Pending'',
          Sleep (1 / 2),
          Get (JStr ''https://api.us1.bfl.ai/v1/get_result'') (flux_headers ''key'')
            [(''id'', JStr ''job-1'')],
          Get (JStr ''https://img/1.png'') [] []]
   \<and> elapsed_wait (snd (call_flux_api ready_second_world ''key'' ''a clock'' [] 1024 1024 3 None
                          ''euler_a'' 28)) = 1"
proof -
  have sub: "submitted ready_second_world (flux_headers ''key'')
               (flux_payload ''a clock'' [] 1024 1024 3 None ''euler_a'' 28) (JStr ''job-1'')"
    by (simp add: ready_second_world_def demo_defs)
  have pend: "\<forall>i<2 - 1. pending ready_second_world (flux_headers ''key'') (JStr ''job-1'') i"
    by (simp add: ready_second_world_def demo_defs)
  have resp: "poll_json ready_second_world base_url (flux_headers ''key'') (JStr ''job-1'') (2 - 1)
                = Inr (JObj ready_fields)"
    by (simp add: ready_second_world_def demo_defs)
  have st: "map_of ready_fields ''status'' = Some (JStr ''Ready'')"
    by (simp add: ready_fields_def)
  have res: "map_of ready_fields ''result''
               = Some (JObj [(''sample'', JStr ''https://img/1.png''),
                             (''samples'', JArr [JStr ''https://img/2.png''])])"
    by (simp add: ready_fields_def)
  have sample: "map_of [(''sample'', JStr ''https://img/1.png''),
                        (''samples'', JArr [JStr ''https://img/2.png''])] ''sample''
                  = Some (JStr ''https://img/1.png'')"
    by simp
  have fetch: "requests_get ready_second_world 2 (JStr ''https://img/1.png'') [] []
                 = Inr (bytes_response 200 ''PNG'')"
    by (simp add: ready_second_world_def demo_defs)
  have ok: "raise_for_status (bytes_response 200 ''PNG'') = None"
    by (simp add: demo_defs)
  have dec: "Image_open ready_second_world (content (bytes_response 200 ''PNG'')) = Inr ''image''"
    by (simp add: ready_second_world_def demo_defs)
  have k: "0 < (2::nat)" "(2::nat) \<le> 60" by simp_all
  have round: "pending_rounds ready_second_world (flux_headers ''key'') (JStr ''job-1'') 0 (2 - 1)
                 = [Sleep (1 / 2),
                    Get (JStr ''https://api.us1.bfl.ai/v1/get_result'') (flux_headers ''key'')
                      [(''id'', JStr ''job-1'')],
                    StWrite ''Status: Pending'']"
    by (simp add: pending_round_def py_str_def base_url_def ready_second_world_def demo_defs)
  note run = ready_sample_is_fetched[OF sub k pend resp st res sample fetch ok dec]
  from run have image: "fst (call_flux_api ready_second_world ''key'' ''a clock'' [] 1024 1024 3
                               None ''euler_a'' 28) = (Some ''image'', None)"
    by (rule conjunct1)
  from run have trace: "snd (call_flux_api ready_second_world ''key'' ''a clock'' [] 1024 1024 3
                               None ''euler_a'' 28)
      = prelude (flux_headers ''key'')
          (flux_payload ''a clock'' [] 1024 1024 3 None ''euler_a'' 28)
        @ pending_rounds ready_second_world (flux_headers ''key'') (JStr ''job-1'') 0 (2 - 1)
        @ [Sleep (1 / 2), poll_get (flux_headers ''key'') (JStr ''job-1''),
           Get (JStr ''https://img/1.png'') [] []]"
    by blast
  from run have wait: "elapsed_wait (snd (call_flux_api ready_second_world ''key'' ''a clock'' []
                                            1024 1024 3 None ''euler_a'' 28)) = of_nat 2 * (1 / 2)"
    by blast
  have trace': "snd (call_flux_api ready_second_world ''key'' ''a clock'' [] 1024 1024 3
                       None ''euler_a'' 28)
      = [StWrite ''Submitting image generation request...'',
          Post ''https://api.us1.bfl.ai/v1/flux-pro-1.1'' (flux_headers ''key'')
            (flux_payload ''a clock'' [] 1024 1024 3 None ''euler_a'' 28),
          StWrite ''Waiting for image generation...'',
          Sleep (1 / 2),
          Get (JStr ''https://api.us1.bfl.ai/v1/get_result'') (flux_headers ''key'')
            [(''id'', JStr ''job-1'')],
          StWrite ''Status: Pending'',
          Sleep (1 / 2),
          Get (JStr ''https://api.us1.bfl.ai/v1/get_result'') (flux_headers ''key'')
            [(''id'', JStr ''job-1'')],
          Get (JStr ''https://img/1.png'') [] []]"
    unfolding trace round by (simp add: prelude_def poll_get_def base_url_def)
  have wait': "elapsed_wait (snd (call_flux_api ready_second_world ''key'' ''a clock'' []
                                    1024 1024 3 None ''euler_a'' 28)) = 1"
    unfolding wait by simp
  show ?thesis using image trace' wait' by blast
qed

text \<open>
  With \<open>Ready\<close> on the first status response the client has already slept 0.5 time
  units, not \<open>(1 - 1) \<times> 0.5\<close>.
\<close>

theorem wait_before_first_poll_counterexample:
  "poll_json (ready_first_world 200 200) base_url (flux_headers ''key'') (JStr ''job-1'') (1 - 1)
     = Inr (JObj ready_fields)
   \<and> fst (call_flux_api (ready_first_world 200 200) ''key'' ''a clock'' [] 1024 1024 3 None
            ''euler_a'' 28) = (Some ''image'', None)
   \<and> snd (call_flux_api (ready_first_world 200 200) ''key'' ''a clock'' [] 1024 1024 3 None
            ''euler_a'' 28)
       = [StWrite ''Submitting image generation request...'',
          Post ''https://api.us1.bfl.ai/v1/flux-pro-1.1'' (flux_headers ''key'')
            (flux_payload ''a clock'' [] 1024 1024 3 None ''euler_a'' 28),
          StWrite ''Waiting for image generation...'',
          Sleep (1 / 2),
          Get (JStr ''https://api.us1.bfl.ai/v1/get_result'') (flux_headers ''key'')
            [(''id'', JStr ''job-1'')],
          Get (JStr ''https://img/1.png'') [] []]
   \<and> elapsed_wait (snd (call_flux_api (ready_first_world 200 200) ''key'' ''a clock'' [] 1024 1024 3
                          None ''euler_a'' 28)) = 1 / 2
   \<and> elapsed_wait (snd (call_flux_api (ready_first_world 200 200) ''key'' ''a clock'' [] 1024 1024 3
                          None ''euler_a'' 28)) \<noteq> (1 - 1) * (1 / 2)"
proof -
  have sub: "submitted (ready_first_world 200 200) (flux_headers ''key'')
               (flux_payload ''a clock'' [] 1024 1024 3 None ''euler_a'' 28) (JStr ''job-1'')"
    by (simp add: ready_first_world_def demo_defs)
  have pend: "\<forall>i<1 - 1. pending (ready_first_world 200 200) (flux_headers ''key'') (JStr ''job-1'') i"
    by simp
  have resp: "poll_json (ready_first_world 200 200) base_url (flux_headers ''key'') (JStr ''job-1'')
                (1 - 1) = Inr (JObj ready_fields)"
    by (simp add: ready_first_world_def demo_defs)
  have st: "map_of ready_fields ''status'' = Some (JStr ''Ready'')"
    by (simp add: ready_fields_def)
  have k: "0 < (1::nat)" "(1::nat) \<le> 60" by simp_all
  have rb: "ready_branch (ready_first_world 200 200) 1 (JObj ready_fields)
              = ((Some ''image'', None), [Get (JStr ''https://img/1.png'') [] []])"
    by (simp add: ready_branch_def extract_img_url_def download_image_def
          ready_first_world_def demo_defs)
  show ?thesis
    unfolding call_flux_api_run run_ready[OF sub k pend resp st] rb
    using resp by (simp add: trace_simps prelude_def poll_get_def base_url_def)
qed

text \<open>
  C2: when the job was accepted and each of the 60 status responses carries a status
  other than \<open>Ready\<close> and \<open>Failed\<close>, the client returns the timeout message after
  exactly 60 requests to the status endpoint.
\<close>

theorem timeout_after_60_polls:
  assumes "submitted w (flux_headers api_key)
             (flux_payload prompt negative_prompt width height guidance_scale seed sampler steps)
             request_id"
      and "\<forall>i<60. pending w (flux_headers api_key) request_id i"
  shows "fst (call_flux_api w api_key prompt negative_prompt width height guidance_scale seed
                sampler steps)
           = (None, Some ''Image generation timed out'')
         \<and> poll_calls (snd (call_flux_api w api_key prompt negative_prompt width height
                             guidance_scale seed sampler steps)) = 60"
proof -
  have "60 + 0 = (60::nat)" by simp
  from run_after_pending[OF assms(1) assms(2) this]
  show ?thesis
    by (simp add: call_flux_api_run poll_calls_append poll_calls_prelude
          poll_calls_pending_rounds)
qed

text \<open>A world whose status endpoint answers \<open>Pending\<close> for ever.\<close>

theorem timeout_after_60_polls_witness:
  "fst (call_flux_api always_pending_world ''key'' ''a clock'' [] 1024 1024 3 None ''euler_a'' 28)
     = (None, Some ''Image generation timed out'')
   \<and> poll_calls (snd (call_flux_api always_pending_world ''key'' ''a clock'' [] 1024 1024 3 None
                        ''euler_a'' 28)) = 60"
proof -
  have sub: "submitted always_pending_world (flux_headers ''key'')
               (flux_payload ''a clock'' [] 1024 1024 3 None ''euler_a'' 28) (JStr ''job-1'')"
    by (simp add: always_pending_world_def demo_defs)
  have pend: "\<forall>i<60. pending always_pending_world (flux_headers ''key'') (JStr ''job-1'') i"
    by (simp add: always_pending_world_def demo_defs)
  show ?thesis by (rule timeout_after_60_polls[OF sub pend])
qed

text \<open>
  C3: when the submission is answered without an error status by a JSON object that has
  no \<open>id\<close> key, the client returns \<^verbatim>\<open>No request ID in response\<close> right after the
  POST and makes no status request.
\<close>

theorem missing_id_stops_before_polling:
  assumes post: "requests_post w (base_url @ ''/flux-pro-1.1'') (flux_headers api_key)
             (flux_payload prompt negative_prompt width height guidance_scale seed sampler steps)
           = Inr response"
      and ok: "raise_for_status response = None"
      and body: "json_body response = Some (JObj fs)"
      and no_id: "map_of fs ''id'' = None"
  shows "call_flux_api w api_key prompt negative_prompt width height guidance_scale seed sampler steps
           = ((None, Some ''No request ID in response''),
              [StWrite ''Submitting image generation request...'',
               Post (base_url @ ''/flux-pro-1.1'') (flux_headers api_key)
                 (flux_payload prompt negative_prompt width height guidance_scale seed sampler
                    steps)])
         \<and> poll_calls (snd (call_flux_api w api_key prompt negative_prompt width height
                              guidance_scale seed sampler steps)) = 0"
proof -
  have "''id'' \<notin> fst ` set fs" using no_id by (simp add: map_of_eq_None_iff)
  then show ?thesis
    using post ok body
    by (simp add: call_flux_api_def submit_and_poll_def Let_def poll_calls_def)
qed

text \<open>A submission answered with \<^verbatim>\<open>{"message": "queued"}\<close>.\<close>

theorem missing_id_stops_before_polling_witness:
  "call_flux_api no_id_world ''key'' ''a clock'' [] 1024 1024 3 None ''euler_a'' 28
     = ((None, Some ''No request ID in response''),
        [StWrite ''Submitting image generation request...'',
         Post (base_url @ ''/flux-pro-1.1'') (flux_headers ''key'')
           (flux_payload ''a clock'' [] 1024 1024 3 None ''euler_a'' 28)])
   \<and> poll_calls (snd (call_flux_api no_id_world ''key'' ''a clock'' [] 1024 1024 3 None
                        ''euler_a'' 28)) = 0"
proof -
  have post: "requests_post no_id_world (base_url @ ''/flux-pro-1.1'') (flux_headers ''key'')
                (flux_payload ''a clock'' [] 1024 1024 3 None ''euler_a'' 28)
              = Inr (json_response 200 (JObj [(''message'', JStr ''queued'')]))"
    by (simp add: no_id_world_def demo_defs)
  have ok: "raise_for_status (json_response 200 (JObj [(''message'', JStr ''queued'')])) = None"
    by (simp add: demo_defs)
  have body: "json_body (json_response 200 (JObj [(''message'', JStr ''queued'')]))
                = Some (JObj [(''message'', JStr ''queued'')])"
    by (simp add: demo_defs)
  have no_id: "map_of [(''message'', JStr ''queued'')] ''id'' = None"
    by simp
  show ?thesis by (rule missing_id_stops_before_polling[OF post ok body no_id])
qed

text \<open>
  C4: each of the five aspect-ratio labels gives its fixed (width, height) pair, and
  whatever the selection is, the pair is one of these five.
\<close>

theorem aspect_dims_table:
  "aspect_dims ''Square (1:1)'' = (1024, 1024)
   \<and> aspect_dims ''Portrait (3:4)'' = (768, 1024)
   \<and> aspect_dims ''Landscape (4:3)'' = (1024, 768)
   \<and> aspect_dims ''Wide (16:9)'' = (1024, 576)
   \<and> aspect_dims ''Tall (9:16)'' = (576, 1024)
   \<and> (\<forall>a. aspect_dims a \<in> {(1024, 1024), (768, 1024), (1024, 768), (1024, 576), (576, 1024)})"
  by (simp add: aspect_dims_def)

text \<open>
  C5: when the \<open>k\<close>-th status response is \<open>Ready\<close> and its result payload is an object
  with neither a \<open>sample\<close> nor a \<open>samples\<close> key, the client returns no image and the
  processing error, which holds the text of the \<^verbatim>\<open>KeyError\<close> and the dump of the whole
  status payload; no image is requested.
\<close>

theorem ready_without_sample_is_error:
  assumes sub: "submitted w (flux_headers api_key)
             (flux_payload prompt negative_prompt width height guidance_scale seed sampler steps)
             request_id"
      and k: "0 < k" "k \<le> 60"
      and pend: "\<forall>i<k - 1. pending w (flux_headers api_key) request_id i"
      and resp: "poll_json w base_url (flux_headers api_key) request_id (k - 1) = Inr (JObj fs)"
      and st: "map_of fs ''status'' = Some (JStr ''Ready'')"
      and res: "map_of fs ''result'' = Some (JObj rs)"
      and no_sample: "map_of rs ''sample'' = None"
      and no_samples: "map_of rs ''samples'' = None"
  shows "fst (call_flux_api w api_key prompt negative_prompt width height guidance_scale seed
                sampler steps)
           = (None, Some (''Error processing API response: ''
                            @ exn_str w (KeyError (JStr ''samples''))
                            @ [CHR 0x0A] @ ''Response: '' @ py_repr w (JObj fs)))
         \<and> network_calls (snd (call_flux_api w api_key prompt negative_prompt width height
                                 guidance_scale seed sampler steps))
             = Post (base_url @ ''/flux-pro-1.1'') (flux_headers api_key)
                 (flux_payload prompt negative_prompt width height guidance_scale seed sampler steps)
               # replicate k (poll_get (flux_headers api_key) request_id)"
proof -
  have rb: "ready_branch w k (JObj fs) =
              ((None, Some (processing_error w (KeyError (JStr ''samples'')) (JObj fs))), [])"
    by (simp add: ready_branch_def extract_neither[OF res no_sample no_samples])
  obtain m where m: "k = Suc m" using k(1) by (cases k) auto
  show ?thesis
    unfolding call_flux_api_run run_ready[OF sub k pend resp st] rb
    by (simp add: trace_simps processing_error_def py_str_def m replicate_append_same)
qed

text \<open>A first status response \<^verbatim>\<open>{"status": "Ready", "result": {}}\<close>.\<close>

theorem ready_without_sample_is_error_witness:
  "fst (call_flux_api ready_empty_world ''key'' ''a clock'' [] 1024 1024 3 None ''euler_a'' 28)
     = (None, Some (''Error processing API response: <exception>'' @ [CHR 0x0A]
                      @ ''Response: <repr>''))
   \<and> network_calls (snd (call_flux_api ready_empty_world ''key'' ''a clock'' [] 1024 1024 3 None
                           ''euler_a'' 28))
       = [Post (base_url @ ''/flux-pro-1.1'') (flux_headers ''key'')
            (flux_payload ''a clock'' [] 1024 1024 3 None ''euler_a'' 28),
          poll_get (flux_headers ''key'') (JStr ''job-1'')]"
proof -
  have sub: "submitted ready_empty_world (flux_headers ''key'')
               (flux_payload ''a clock'' [] 1024 1024 3 None ''euler_a'' 28) (JStr ''job-1'')"
    by (simp add: ready_empty_world_def demo_defs)
  have pend: "\<forall>i<1 - 1. pending ready_empty_world (flux_headers ''key'') (JStr ''job-1'') i"
    by simp
  have resp: "poll_json ready_empty_world base_url (flux_headers ''key'') (JStr ''job-1'') (1 - 1)
                = Inr (JObj [(''status'', JStr ''Ready''), (''result'', JObj [])])"
    by (simp add: ready_empty_world_def demo_defs)
  have st: "map_of [(''status'', JStr ''Ready''), (''result'', JObj [])] ''status''
              = Some (JStr ''Ready'')"
    by simp
  have res: "map_of [(''status'', JStr ''Ready''), (''result'', JObj [])] ''result''
               = Some (JObj [])"
    by simp
  have none: "map_of ([] :: (string \<times> json) list) ''sample'' = None"
             "map_of ([] :: (string \<times> json) list) ''samples'' = None"
    by simp_all
  have k: "0 < (1::nat)" "(1::nat) \<le> 60" by simp_all
  from ready_without_sample_is_error[OF sub k pend resp st res none]
  show ?thesis by (simp add: ready_empty_world_def demo_world_def)
qed

text \<open>
  C6: when the \<open>k\<close>-th status response is \<open>Failed\<close>, the client returns the message
  \<^verbatim>\<open>Generation failed: \<close> followed by the value of the \<open>error\<close> field, or by
  \<^verbatim>\<open>Unknown error\<close> when there is no such field, and it has made exactly \<open>k\<close> status
  requests: none after the failure.
\<close>

theorem failed_status_is_terminal:
  assumes sub: "submitted w (flux_headers api_key)
             (flux_payload prompt negative_prompt width height guidance_scale seed sampler steps)
             request_id"
      and k: "0 < k" "k \<le> 60"
      and pend: "\<forall>i<k - 1. pending w (flux_headers api_key) request_id i"
      and resp: "poll_json w base_url (flux_headers api_key) request_id (k - 1) = Inr (JObj fs)"
      and st: "map_of fs ''status'' = Some (JStr ''Failed'')"
  shows "fst (call_flux_api w api_key prompt negative_prompt width height guidance_scale seed
                sampler steps)
           = (None, Some (''Generation failed: '' @
                   (case map_of fs ''error'' of
                      Some v \<Rightarrow> py_str (py_repr w) v
                    | None \<Rightarrow> ''Unknown error'')))
         \<and> poll_calls (snd (call_flux_api w api_key prompt negative_prompt width height
                              guidance_scale seed sampler steps)) = k"
proof -
  obtain m where m: "k = Suc m" using k(1) by (cases k) auto
  show ?thesis
    unfolding call_flux_api_run run_failed[OF sub k pend resp st]
    by (simp add: trace_simps m)
qed

text \<open>
  A second status response that is \<open>Failed\<close>, once with the error \<^verbatim>\<open>bad prompt\<close> and
  once with no error field.
\<close>

theorem failed_status_is_terminal_witness:
  "fst (call_flux_api (failed_world [(''status'', JStr ''Failed''), (''error'', JStr ''bad prompt'')])
          ''key'' ''a clock'' [] 1024 1024 3 None ''euler_a'' 28)
     = (None, Some ''Generation failed: bad prompt'')
   \<and> poll_calls (snd (call_flux_api
          (failed_world [(''status'', JStr ''Failed''), (''error'', JStr ''bad prompt'')])
          ''key'' ''a clock'' [] 1024 1024 3 None ''euler_a'' 28)) = 2
   \<and> fst (call_flux_api (failed_world [(''status'', JStr ''Failed'')])
            ''key'' ''a clock'' [] 1024 1024 3 None ''euler_a'' 28)
     = (None, Some ''Generation failed: Unknown error'')
   \<and> poll_calls (snd (call_flux_api (failed_world [(''status'', JStr ''Failed'')])
          ''key'' ''a clock'' [] 1024 1024 3 None ''euler_a'' 28)) = 2"
proof -
  have k: "0 < (2::nat)" "(2::nat) \<le> 60" by simp_all
  have sub: "submitted (failed_world fs) (flux_headers ''key'')
               (flux_payload ''a clock'' [] 1024 1024 3 None ''euler_a'' 28) (JStr ''job-1'')" for fs
    by (simp add: failed_world_def demo_defs)
  have pend: "\<forall>i<2 - 1. pending (failed_world fs) (flux_headers ''key'') (JStr ''job-1'') i" for fs
    by (simp add: failed_world_def demo_defs)
  have resp: "poll_json (failed_world fs) base_url (flux_headers ''key'') (JStr ''job-1'') (2 - 1)
                = Inr (JObj fs)" for fs
    by (simp add: failed_world_def demo_defs)
  have st1: "map_of [(''status'', JStr ''Failed''), (''error'', JStr ''bad prompt'')] ''status''
               = Some (JStr ''Failed'')"
    by simp
  have st2: "map_of [(''status'', JStr ''Failed'')] ''status'' = Some (JStr ''Failed'')"
    by simp
  from failed_status_is_terminal[OF sub k pend resp st1]
       failed_status_is_terminal[OF sub k pend resp st2]
  show ?thesis by (simp add: py_str_def)
qed

text \<open>
  C7: with an empty prompt the generate action only shows the validation error; it makes
  no network call.
\<close>

theorem empty_prompt_is_rejected_locally:
  assumes "ui_prompt u = []"
  shows "generate_clicked w u = [StError ''Please enter a prompt first!'']
         \<and> network_calls (generate_clicked w u) = []"
  using assms by (simp add: generate_clicked_def network_calls_def)

text \<open>The form as it is first shown, with nothing typed into the prompt.\<close>

theorem empty_prompt_is_rejected_locally_witness:
  "generate_clicked always_pending_world empty_form = [StError ''Please enter a prompt first!'']
   \<and> network_calls (generate_clicked always_pending_world empty_form) = []"
proof -
  have "ui_prompt empty_form = []" by (simp add: empty_form_def)
  then show ?thesis by (rule empty_prompt_is_rejected_locally)
qed

text \<open>
  C8, as the code has it: when the submission is answered with a status in the 4xx or
  5xx range, the client returns \<^verbatim>\<open>API Error: \<close> followed by the decoded JSON body
  of the response, or by the text of the exception when the body is not JSON, and the
  POST is its only network call.
\<close>

theorem submission_http_error:
  assumes post: "requests_post w (base_url @ ''/flux-pro-1.1'') (flux_headers api_key)
             (flux_payload prompt negative_prompt width height guidance_scale seed sampler steps)
           = Inr response"
      and bad: "400 \<le> status_code response" "status_code response < 600"
  shows "fst (call_flux_api w api_key prompt negative_prompt width height guidance_scale seed
                sampler steps)
           = (None, Some (''API Error: '' @
                (case json_body response of
                   Some error_detail \<Rightarrow> py_str (py_repr w) error_detail
                 | None \<Rightarrow> exn_str w (HTTPError (Some response)))))
         \<and> network_calls (snd (call_flux_api w api_key prompt negative_prompt width height
                                 guidance_scale seed sampler steps))
             = [Post (base_url @ ''/flux-pro-1.1'') (flux_headers api_key)
                  (flux_payload prompt negative_prompt width height guidance_scale seed sampler
                     steps)]"
  using post bad
  by (simp add: call_flux_api_def submit_and_poll_def Let_def raise_for_status_def
        handle_exn_def network_calls_def split: option.splits)

text \<open>
  A submission refused with status 422 and a JSON body, and one refused with status 502 and
  a body that is not JSON.
\<close>

theorem submission_http_error_witness:
  "fst (call_flux_api (rejected_world (json_response 422 (JStr ''prompt too long'')))
          ''key'' ''a clock'' [] 1024 1024 3 None ''euler_a'' 28)
     = (None, Some ''API Error: prompt too long'')
   \<and> network_calls (snd (call_flux_api (rejected_world (json_response 422 (JStr ''prompt too long'')))
          ''key'' ''a clock'' [] 1024 1024 3 None ''euler_a'' 28))
     = [Post (base_url @ ''/flux-pro-1.1'') (flux_headers ''key'')
          (flux_payload ''a clock'' [] 1024 1024 3 None ''euler_a'' 28)]
   \<and> fst (call_flux_api (rejected_world (bytes_response 502 ''Bad Gateway''))
            ''key'' ''a clock'' [] 1024 1024 3 None ''euler_a'' 28)
     = (None, Some ''API Error: <exception>'')"
proof -
  have post: "requests_post (rejected_world r) (base_url @ ''/flux-pro-1.1'') (flux_headers ''key'')
                (flux_payload ''a clock'' [] 1024 1024 3 None ''euler_a'' 28) = Inr r" for r
    by (simp add: rejected_world_def demo_defs)
  have bad1: "400 \<le> status_code (json_response 422 (JStr ''prompt too long''))"
             "status_code (json_response 422 (JStr ''prompt too long'')) < 600"
    by (simp_all add: demo_defs)
  have bad2: "400 \<le> status_code (bytes_response 502 ''Bad Gateway'')"
             "status_code (bytes_response 502 ''Bad Gateway'') < 600"
    by (simp_all add: demo_defs)
  from submission_http_error[OF post bad1] submission_http_error[OF post bad2]
  show ?thesis by (simp add: py_str_def rejected_world_def demo_defs)
qed

text \<open>
  A submission answered with status 300, which is not a 2xx status and for which
  \<^verbatim>\<open>raise_for_status\<close> does not raise: the client goes on to poll and returns the image.
\<close>

theorem submission_status_300_counterexample:
  "requests_post (ready_first_world 300 200) (base_url @ ''/flux-pro-1.1'') (flux_headers ''key'')
     (flux_payload ''a clock'' [] 1024 1024 3 None ''euler_a'' 28)
     = Inr (json_response 300 (JObj [(''id'', JStr ''job-1'')]))
   \<and> status_code (json_response 300 (JObj [(''id'', JStr ''job-1'')])) = 300
   \<and> fst (call_flux_api (ready_first_world 300 200) ''key'' ''a clock'' [] 1024 1024 3 None
            ''euler_a'' 28) = (Some ''image'', None)
   \<and> poll_calls (snd (call_flux_api (ready_first_world 300 200) ''key'' ''a clock'' [] 1024 1024 3
                        None ''euler_a'' 28)) = 1"
proof -
  have sub: "submitted (ready_first_world 300 200) (flux_headers ''key'')
               (flux_payload ''a clock'' [] 1024 1024 3 None ''euler_a'' 28) (JStr ''job-1'')"
    by (simp add: ready_first_world_def demo_defs)
  have pend: "\<forall>i<1 - 1. pending (ready_first_world 300 200) (flux_headers ''key'') (JStr ''job-1'') i"
    by simp
  have resp: "poll_json (ready_first_world 300 200) base_url (flux_headers ''key'') (JStr ''job-1'')
                (1 - 1) = Inr (JObj ready_fields)"
    by (simp add: ready_first_world_def demo_defs)
  have st: "map_of ready_fields ''status'' = Some (JStr ''Ready'')"
    by (simp add: ready_fields_def)
  have k: "0 < (1::nat)" "(1::nat) \<le> 60" by simp_all
  have rb: "ready_branch (ready_first_world 300 200) 1 (JObj ready_fields)
              = ((Some ''image'', None), [Get (JStr ''https://img/1.png'') [] []])"
    by (simp add: ready_branch_def extract_img_url_def download_image_def
          ready_first_world_def demo_defs)
  have post: "requests_post (ready_first_world 300 200) (base_url @ ''/flux-pro-1.1'')
                (flux_headers ''key'')
                (flux_payload ''a clock'' [] 1024 1024 3 None ''euler_a'' 28)
              = Inr (json_response 300 (JObj [(''id'', JStr ''job-1'')]))"
    by (simp add: ready_first_world_def demo_defs)
  have code: "status_code (json_response 300 (JObj [(''id'', JStr ''job-1'')])) = 300"
    by (simp add: demo_defs)
  have run: "fst (call_flux_api (ready_first_world 300 200) ''key'' ''a clock'' [] 1024 1024 3 None
            ''euler_a'' 28) = (Some ''image'', None)
   \<and> poll_calls (snd (call_flux_api (ready_first_world 300 200) ''key'' ''a clock'' [] 1024 1024 3
                        None ''euler_a'' 28)) = 1"
    unfolding call_flux_api_run run_ready[OF sub k pend resp st] rb
    by (simp add: trace_simps)
  show ?thesis using post code run by blast
qed

text \<open>
  C9: whatever the arguments and whatever the outside world answers, the client returns
  either an image with no error message or an error message with no image.
\<close>

theorem outcome_is_image_or_error:
  "(\<exists>img. fst (call_flux_api w api_key prompt negative_prompt width height guidance_scale seed
                  sampler steps) = (Some img, None))
   \<or> (\<exists>msg. fst (call_flux_api w api_key prompt negative_prompt width height guidance_scale seed
                    sampler steps) = (None, Some msg))"
  unfolding call_flux_api_run
  using settled_cases[OF submit_and_poll_settled] by simp

text \<open>
  C10, as the code has it: when the \<open>k\<close>-th status response is \<open>Ready\<close> and the GET of
  its image URL answers with a status in the 4xx or 5xx range, \<^verbatim>\<open>raise_for_status\<close>
  raises inside the \<open>Ready\<close> branch, whose handler returns the processing error with the
  status payload; the result is not the \<^verbatim>\<open>API Error\<close> message of the outer handler.
\<close>

theorem image_fetch_http_error_is_processing_error:
  assumes sub: "submitted w (flux_headers api_key)
             (flux_payload prompt negative_prompt width height guidance_scale seed sampler steps)
             request_id"
      and k: "0 < k" "k \<le> 60"
      and pend: "\<forall>i<k - 1. pending w (flux_headers api_key) request_id i"
      and resp: "poll_json w base_url (flux_headers api_key) request_id (k - 1) = Inr (JObj fs)"
      and st: "map_of fs ''status'' = Some (JStr ''Ready'')"
      and url: "extract_img_url (JObj fs) = Inr img_url"
      and fetch: "requests_get w k img_url [] [] = Inr img_response"
      and bad: "400 \<le> status_code img_response" "status_code img_response < 600"
  shows "fst (call_flux_api w api_key prompt negative_prompt width height guidance_scale seed
                sampler steps)
           = (None, Some (''Error processing API response: ''
                            @ exn_str w (HTTPError (Some img_response))
                            @ [CHR 0x0A] @ ''Response: '' @ py_repr w (JObj fs)))
         \<and> fst (call_flux_api w api_key prompt negative_prompt width height guidance_scale seed
                  sampler steps)
           \<noteq> (None, Some (handle_exn w (HTTPError (Some img_response))))"
proof -
  have rb: "ready_branch w k (JObj fs) =
              ((None, Some (processing_error w (HTTPError (Some img_response)) (JObj fs))),
               [Get img_url [] []])"
    using bad by (simp add: ready_branch_def url download_image_def fetch raise_for_status_def)
  have differ: "processing_error w (HTTPError (Some img_response)) (JObj fs)
                  \<noteq> handle_exn w (HTTPError (Some img_response))"
    by (simp add: processing_error_def handle_exn_def split: option.splits)
  show ?thesis
    unfolding call_flux_api_run run_ready[OF sub k pend resp st] rb
    using differ by (simp add: processing_error_def py_str_def)
qed

text \<open>An image URL that answers with status 404.\<close>

theorem image_fetch_http_error_is_processing_error_witness:
  "fst (call_flux_api (ready_first_world 200 404) ''key'' ''a clock'' [] 1024 1024 3 None
          ''euler_a'' 28)
     = (None, Some (''Error processing API response: <exception>'' @ [CHR 0x0A]
                      @ ''Response: <repr>''))"
proof -
  have sub: "submitted (ready_first_world 200 404) (flux_headers ''key'')
               (flux_payload ''a clock'' [] 1024 1024 3 None ''euler_a'' 28) (JStr ''job-1'')"
    by (simp add: ready_first_world_def demo_defs)
  have pend: "\<forall>i<1 - 1. pending (ready_first_world 200 404) (flux_headers ''key'') (JStr ''job-1'') i"
    by simp
  have resp: "poll_json (ready_first_world 200 404) base_url (flux_headers ''key'') (JStr ''job-1'')
                (1 - 1) = Inr (JObj ready_fields)"
    by (simp add: ready_first_world_def demo_defs)
  have st: "map_of ready_fields ''status'' = Some (JStr ''Ready'')"
    by (simp add: ready_fields_def)
  have k: "0 < (1::nat)" "(1::nat) \<le> 60" by simp_all
  have url: "extract_img_url (JObj ready_fields) = Inr (JStr ''https://img/1.png'')"
    by (simp add: extract_img_url_def ready_fields_def)
  have fetch: "requests_get (ready_first_world 200 404) 1 (JStr ''https://img/1.png'') [] []
                 = Inr (bytes_response 404 ''PNG'')"
    by (simp add: ready_first_world_def demo_defs)
  have bad: "400 \<le> status_code (bytes_response 404 ''PNG'')"
            "status_code (bytes_response 404 ''PNG'') < 600"
    by (simp_all add: demo_defs)
  from image_fetch_http_error_is_processing_error[OF sub k pend resp st url fetch bad]
  show ?thesis by (simp add: ready_first_world_def demo_world_def)
qed

text \<open>
  An image URL that answers with status 300 and the bytes of an image: nothing is raised
  and the image is returned.
\<close>

theorem image_fetch_status_300_counterexample:
  "poll_json (ready_first_world 200 300) base_url (flux_headers ''key'') (JStr ''job-1'') (1 - 1)
     = Inr (JObj ready_fields)
   \<and> requests_get (ready_first_world 200 300) 1 (JStr ''https://img/1.png'') [] []
       = Inr (bytes_response 300 ''PNG'')
   \<and> status_code (bytes_response 300 ''PNG'') = 300
   \<and> fst (call_flux_api (ready_first_world 200 300) ''key'' ''a clock'' [] 1024 1024 3 None
            ''euler_a'' 28) = (Some ''image'', None)"
proof -
  have sub: "submitted (ready_first_world 200 300) (flux_headers ''key'')
               (flux_payload ''a clock'' [] 1024 1024 3 None ''euler_a'' 28) (JStr ''job-1'')"
    by (simp add: ready_first_world_def demo_defs)
  have pend: "\<forall>i<1 - 1. pending (ready_first_world 200 300) (flux_headers ''key'') (JStr ''job-1'') i"
    by simp
  have resp: "poll_json (ready_first_world 200 300) base_url (flux_headers ''key'') (JStr ''job-1'')
                (1 - 1) = Inr (JObj ready_fields)"
    by (simp add: ready_first_world_def demo_defs)
  have st: "map_of ready_fields ''status'' = Some (JStr ''Ready'')"
    by (simp add: ready_fields_def)
  have k: "0 < (1::nat)" "(1::nat) \<le> 60" by simp_all
  have rb: "ready_branch (ready_first_world 200 300) 1 (JObj ready_fields)
              = ((Some ''image'', None), [Get (JStr ''https://img/1.png'') [] []])"
    by (simp add: ready_branch_def extract_img_url_def download_image_def
          ready_first_world_def demo_defs)
  have fetch: "requests_get (ready_first_world 200 300) 1 (JStr ''https://img/1.png'') [] []
                 = Inr (bytes_response 300 ''PNG'')"
    by (simp add: ready_first_world_def demo_defs)
  have code: "status_code (bytes_response 300 ''PNG'') = 300"
    by (simp add: demo_defs)
  have run: "fst (call_flux_api (ready_first_world 200 300) ''key'' ''a clock'' [] 1024 1024 3 None
            ''euler_a'' 28) = (Some ''image'', None)"
    unfolding call_flux_api_run run_ready[OF sub k pend resp st] rb
    by simp
  show ?thesis using resp fetch code run by blast
qed

end
